theory Spec2Isabelle
  imports Complex_Main "HOL-Library.Sublist"
begin

section \<open>The record table\<close>

text \<open>
  \<^verbatim>\<open>bin/partition_refs.py\<close> loads a table of sequence records with
  \<^verbatim>\<open>pandas.read_feather\<close>, filters it, and writes the surviving sequences
  and their metadata. One row of the loaded table is a \<open>row\<close>; the columns are the ones
  the script reads. The column \<^verbatim>\<open>length\<close> is called \<open>length_col\<close> here.
  Only \<^verbatim>\<open>species\<close> is tested for null by the script
  (\<^verbatim>\<open>info['species'].isna()\<close>), so it is the one nullable column of a
  loaded row. The identifier columns are strings, as the entries of the identifier lists
  are. \<^verbatim>\<open>length\<close> and \<^verbatim>\<open>ambig_count\<close> are integer columns; the
  script does not check that they are non-negative, nor that
  \<^verbatim>\<open>ambig_count\<close> is at most \<^verbatim>\<open>length\<close>, so where a statement needs
  it, it says so.
\<close>

record row =
  seqname :: string
  accession :: string
  version :: string
  is_valid :: bool
  tax_id :: string
  species :: "string option"
  is_type :: bool
  is_out :: bool
  length_col :: int
  ambig_count :: int
  seqhash :: string

text \<open>
  A data frame is a list of rows in table order, each with its index label. A frame read
  from a feather file has the default index \<open>0, 1, 2, ...\<close>; selecting rows keeps the
  labels.
\<close>

type_synonym table = "(nat \<times> row) list"

definition read_feather :: "row list \<Rightarrow> table" where
  "read_feather rs = enumerate 0 rs"

text \<open>
  After \<^verbatim>\<open>trusted[~trusted.isin(info)]\<close> a cell of any column can be null, so
  the frames of the last stages hold rows whose every cell is optional.
\<close>

record nrow =
  n_seqname :: "string option"
  n_accession :: "string option"
  n_version :: "string option"
  n_is_valid :: "bool option"
  n_tax_id :: "string option"
  n_species :: "string option"
  n_is_type :: "bool option"
  n_is_out :: "bool option"
  n_length_col :: "int option"
  n_ambig_count :: "int option"
  n_seqhash :: "string option"

type_synonym ntable = "(nat \<times> nrow) list"

definition lift_row :: "row \<Rightarrow> nrow" where
  "lift_row r = \<lparr>n_seqname = Some (seqname r), n_accession = Some (accession r),
     n_version = Some (version r), n_is_valid = Some (is_valid r),
     n_tax_id = Some (tax_id r), n_species = species r, n_is_type = Some (is_type r),
     n_is_out = Some (is_out r), n_length_col = Some (length_col r),
     n_ambig_count = Some (ambig_count r), n_seqhash = Some (seqhash r)\<rparr>"

definition lift_entry :: "nat \<times> row \<Rightarrow> nat \<times> nrow" where
  "lift_entry e = (fst e, lift_row (snd e))"

definition null_row :: nrow where
  "null_row = \<lparr>n_seqname = None, n_accession = None, n_version = None, n_is_valid = None,
     n_tax_id = None, n_species = None, n_is_type = None, n_is_out = None,
     n_length_col = None, n_ambig_count = None, n_seqhash = None\<rparr>"

section \<open>Command line, files and library behaviour\<close>

text \<open>
  The parsed command line. \<^verbatim>\<open>args.is_valid\<close>, \<^verbatim>\<open>args.is_species\<close> and
  \<^verbatim>\<open>args.is_type\<close> carry the suffix \<open>_arg\<close> to keep them apart from the
  columns of the same names. An option that was not given is \<open>None\<close>
  (\<^verbatim>\<open>argparse\<close>'s default). \<^verbatim>\<open>type=int\<close> accepts every integer and
  \<^verbatim>\<open>type=float\<close> every float, \<^verbatim>\<open>inf\<close> and \<^verbatim>\<open>nan\<close> included:
  \<^verbatim>\<open>build_parser\<close> declares no range for any of them.
\<close>

datatype pyfloat = Fin rat | PosInf | NegInf | NaN

record args =
  drop_duplicate_sequences :: bool
  is_valid_arg :: bool
  trusted_taxids :: "string option"
  do_not_trust :: "string option"
  inliers :: bool
  is_species_arg :: bool
  is_type_arg :: bool
  min_length :: "int option"
  prop_ambig_cutoff :: "pyfloat option"
  species_cap :: "int option"
  trusted :: "string option"

text \<open>
  Two behaviours of the libraries under the script are parameters of the model:
  \<^item> \<open>na_keys_dropped\<close>: whether \<^verbatim>\<open>groupby(...).nth(...)\<close> drops the rows whose
    group key is null (pandas from 0.25 on) or counts them as one more group (before);
  \<^item> \<open>round_double\<close>: the rounding of an exact quotient to a double.
\<close>

record lib =
  na_keys_dropped :: bool
  round_double :: "rat \<Rightarrow> rat"

text \<open>The file system: the lines of a path, or \<open>None\<close> when it cannot be opened.\<close>

type_synonym files = "string \<Rightarrow> string list option"

datatype error = IOError string

subsection \<open>Floats\<close>

text \<open>
  \<^verbatim>\<open>info['ambig_count'] / info['length']\<close> divides two integer columns
  element-wise: a zero divisor gives \<^verbatim>\<open>nan\<close> (for \<open>0 / 0\<close>) or an infinity, and
  raises nothing. A comparison with \<^verbatim>\<open>nan\<close> on either side is false.
\<close>

definition truediv :: "lib \<Rightarrow> int \<Rightarrow> int \<Rightarrow> pyfloat" where
  "truediv l a b =
     (if b = 0 then (if a = 0 then NaN else if 0 < a then PosInf else NegInf)
      else Fin (round_double l (of_int a / of_int b)))"

fun float_le :: "pyfloat \<Rightarrow> pyfloat \<Rightarrow> bool" where
  "float_le NaN y = False"
| "float_le x NaN = False"
| "float_le NegInf y = True"
| "float_le x PosInf = True"
| "float_le (Fin a) (Fin b) = (a \<le> b)"
| "float_le x y = False"

text \<open>\<^verbatim>\<open>bool(x)\<close> of a float: false for zero only.\<close>

definition truthy_float :: "pyfloat \<Rightarrow> bool" where
  "truthy_float c = (c \<noteq> Fin 0)"

subsection \<open>Identifier lists\<close>

text \<open>
  \<^verbatim>\<open>str.strip()\<close> removes leading and trailing whitespace; the ASCII whitespace
  characters are modelled.
\<close>

definition isspace :: "char \<Rightarrow> bool" where
  "isspace c = (c \<in> set [CHR 0x09, CHR 0x0A, CHR 0x0B, CHR 0x0C, CHR 0x0D,
     CHR 0x1C, CHR 0x1D, CHR 0x1E, CHR 0x1F, CHR 0x20])"

definition strip :: "string \<Rightarrow> string" where
  "strip s = rev (dropWhile isspace (rev (dropWhile isspace s)))"

definition is_comment :: "string \<Rightarrow> bool" where
  "is_comment i = (case i of [] \<Rightarrow> False | c # _ \<Rightarrow> c = CHR ''#'')"

text \<open>
  \<^verbatim>\<open>
  ids = (i for i in open(path) if not i.startswith('#'))
  ids = (i.strip() for i in ids)
  ids = set(i for i in ids if i)
  \<close>
\<close>

definition read_ids :: "string list \<Rightarrow> string list" where
  "read_ids ls = filter (\<lambda>i. i \<noteq> []) (map strip (filter (\<lambda>i. \<not> is_comment i) ls))"

text \<open>
  \<^verbatim>\<open>if args.path: ids = ... open(args.path) ...\<close>: an option that is absent or the
  empty string is falsy and reads nothing.
\<close>

definition read_arg_ids :: "files \<Rightarrow> string option \<Rightarrow> error + string list option" where
  "read_arg_ids fs arg =
     (case arg of
        None \<Rightarrow> Inr None
      | Some p \<Rightarrow>
          if p = [] then Inr None
          else (case fs p of None \<Rightarrow> Inl (IOError p) | Some ls \<Rightarrow> Inr (Some (read_ids ls))))"

section \<open>The stages of \<^verbatim>\<open>main\<close>\<close>

text \<open>
  \<^verbatim>\<open>
  trusted = info[(info['version'].isin(recs)) |
                 (info['accession'].isin(recs)) |
                 (info['seqname'].isin(recs))]
  \<close>
\<close>

definition select_trusted :: "string list \<Rightarrow> table \<Rightarrow> table" where
  "select_trusted recs info =
     filter (\<lambda>(i, r). version r \<in> set recs \<or> accession r \<in> set recs \<or> seqname r \<in> set recs)
       info"

text \<open>
  The OR rows: the column \<^verbatim>\<open>keep\<close> starts true, \<^verbatim>\<open>--is_valid\<close> clears it for
  the rows that are not valid, the trusted tax ids set it again, and the rows where it is
  false are dropped.
\<close>

definition or_admit :: "bool \<Rightarrow> string list option \<Rightarrow> table \<Rightarrow> table" where
  "or_admit valid ids info =
     (let keep = map (\<lambda>e. True) info;
          keep = (if valid
                  then map2 (\<lambda>(i, r) k. if \<not> is_valid r then False else k) info keep
                  else keep);
          keep = (case ids of
                    None \<Rightarrow> keep
                  | Some ids \<Rightarrow> map2 (\<lambda>(i, r) k. if tax_id r \<in> set ids then True else k) info keep)
      in map fst (filter snd (zip info keep)))"

text \<open>
  \<^verbatim>\<open>if args.min_length: info = info[info['length'] >= args.min_length]\<close>; the
  value 0 is falsy.
\<close>

definition min_length_filter :: "int option \<Rightarrow> table \<Rightarrow> table" where
  "min_length_filter m info =
     (case m of
        None \<Rightarrow> info
      | Some n \<Rightarrow> if n \<noteq> 0 then filter (\<lambda>(i, r). length_col r \<ge> n) info else info)"

text \<open>
  \<^verbatim>\<open>
  if args.prop_ambig_cutoff:
      info['prop_ambig'] = (info['ambig_count'] / info['length'])
      info = info[info['prop_ambig'] <= args.prop_ambig_cutoff]
      info = info.drop('prop_ambig', axis='columns')
  \<close>
  The value 0.0 is falsy; every other float, \<^verbatim>\<open>nan\<close> included, is truthy.
\<close>

definition prop_ambig_filter :: "lib \<Rightarrow> pyfloat option \<Rightarrow> table \<Rightarrow> table" where
  "prop_ambig_filter l cutoff info =
     (case cutoff of
        None \<Rightarrow> info
      | Some c \<Rightarrow>
          if truthy_float c
          then (let prop_ambig = map (\<lambda>(i, r). truediv l (ambig_count r) (length_col r)) info
                in map fst (filter (\<lambda>(e, p). float_le p c) (zip info prop_ambig)))
          else info)"

definition is_type_filter :: "bool \<Rightarrow> table \<Rightarrow> table" where
  "is_type_filter flag info = (if flag then filter (\<lambda>(i, r). is_type r) info else info)"

definition is_species_filter :: "bool \<Rightarrow> table \<Rightarrow> table" where
  "is_species_filter flag info =
     (if flag then filter (\<lambda>(i, r). \<not> (species r = None)) info else info)"

definition inliers_filter :: "bool \<Rightarrow> table \<Rightarrow> table" where
  "inliers_filter flag info = (if flag then filter (\<lambda>(i, r). \<not> is_out r) info else info)"

definition do_not_trust_filter :: "string list option \<Rightarrow> table \<Rightarrow> table" where
  "do_not_trust_filter dnt info =
     (case dnt of
        None \<Rightarrow> info
      | Some dnt \<Rightarrow>
          (let info = filter (\<lambda>(i, r). \<not> tax_id r \<in> set dnt) info;
               info = filter (\<lambda>(i, r). \<not> accession r \<in> set dnt) info;
               info = filter (\<lambda>(i, r). \<not> version r \<in> set dnt) info
           in filter (\<lambda>(i, r). \<not> seqname r \<in> set dnt) info))"

text \<open>
  \<^verbatim>\<open>info.drop_duplicates(subset=['accession', 'seqhash'], keep='first')\<close>: a row
  is dropped when an earlier row of the frame has the same accession and seqhash.
\<close>

fun drop_duplicates_from :: "(string \<times> string) list \<Rightarrow> table \<Rightarrow> table" where
  "drop_duplicates_from seen [] = []"
| "drop_duplicates_from seen (e # es) =
     (let k = (accession (snd e), seqhash (snd e))
      in if k \<in> set seen then drop_duplicates_from seen es
         else e # drop_duplicates_from (k # seen) es)"

definition drop_duplicates :: "table \<Rightarrow> table" where
  "drop_duplicates info = drop_duplicates_from [] info"

definition drop_duplicates_stage :: "bool \<Rightarrow> table \<Rightarrow> table" where
  "drop_duplicates_stage flag info = (if flag then drop_duplicates info else info)"

text \<open>
  \<^verbatim>\<open>trusted.isin(info)\<close> compares \<^verbatim>\<open>trusted\<close> cell by cell with the row of
  \<^verbatim>\<open>info\<close> that has the same index label (labels are unique), and is false in every
  cell of a row whose label \<^verbatim>\<open>info\<close> lacks and in a null cell.
  \<^verbatim>\<open>trusted[mask]\<close> with a boolean frame is \<^verbatim>\<open>trusted.where(mask)\<close>: it
  keeps every row and puts null in the cells where the mask is false. So with
  \<^verbatim>\<open>mask = ~trusted.isin(info)\<close> a cell becomes null exactly when \<^verbatim>\<open>info\<close>
  has the same value at the same label and column.
\<close>

definition mask_cell :: "'a \<Rightarrow> 'a option \<Rightarrow> 'a option" where
  "mask_cell v other = (if other = Some v then None else Some v)"

definition mask_row :: "row \<Rightarrow> row option \<Rightarrow> nrow" where
  "mask_row r other =
     \<lparr>n_seqname = mask_cell (seqname r) (map_option seqname other),
      n_accession = mask_cell (accession r) (map_option accession other),
      n_version = mask_cell (version r) (map_option version other),
      n_is_valid = mask_cell (is_valid r) (map_option is_valid other),
      n_tax_id = mask_cell (tax_id r) (map_option tax_id other),
      n_species = (case species r of
                     None \<Rightarrow> None
                   | Some s \<Rightarrow> mask_cell s (Option.bind other species)),
      n_is_type = mask_cell (is_type r) (map_option is_type other),
      n_is_out = mask_cell (is_out r) (map_option is_out other),
      n_length_col = mask_cell (length_col r) (map_option length_col other),
      n_ambig_count = mask_cell (ambig_count r) (map_option ambig_count other),
      n_seqhash = mask_cell (seqhash r) (map_option seqhash other)\<rparr>"

definition where_not_isin :: "table \<Rightarrow> table \<Rightarrow> ntable" where
  "where_not_isin t info = map (\<lambda>(i, r). (i, mask_row r (map_of info i))) t"

text \<open>
  \<^verbatim>\<open>
  if args.trusted:
      # place trusted sequences at the bottom
      trusted = trusted[~trusted.isin(info)]
      info = info.append(trusted)
  \<close>
\<close>

definition append_trusted :: "table option \<Rightarrow> table \<Rightarrow> ntable" where
  "append_trusted trusted_rows info =
     (case trusted_rows of
        None \<Rightarrow> map lift_entry info
      | Some t \<Rightarrow> map lift_entry info @ where_not_isin t info)"

text \<open>
  \<^verbatim>\<open>info.groupby(by='species', as_index=False).nth(list(range(n)))\<close> keeps, in
  frame order, the rows whose count of earlier rows with the same species is in
  \<^verbatim>\<open>range(n)\<close>, which is empty when \<open>n\<close> is not positive. The rows with no
  species are dropped when \<open>dropna\<close> holds, and counted as one more group otherwise.
  \<^verbatim>\<open>if args.species_cap:\<close> skips the stage for an absent option and for 0.
\<close>

fun groupby_nth_from :: "bool \<Rightarrow> int \<Rightarrow> string option list \<Rightarrow> ntable \<Rightarrow> ntable" where
  "groupby_nth_from dropna n seen [] = []"
| "groupby_nth_from dropna n seen (e # es) =
     (let k = n_species (snd e);
          cumcount = count_list seen k;
          rest = groupby_nth_from dropna n (k # seen) es
      in if int cumcount < n \<and> \<not> (dropna \<and> k = None) then e # rest else rest)"

definition species_cap_filter :: "lib \<Rightarrow> int option \<Rightarrow> ntable \<Rightarrow> ntable" where
  "species_cap_filter l cap info =
     (case cap of
        None \<Rightarrow> info
      | Some n \<Rightarrow> if n \<noteq> 0 then groupby_nth_from (na_keys_dropped l) n [] info else info)"

text \<open>
  \<^verbatim>\<open>
  seqs = {s.id: s.seq for s in SeqIO.parse(args.fasta, 'fasta')}
  drop = []
  with open(args.out_fa, 'w') as out_fa:
      for s in info['seqname'].values:
          if s in seqs:
              out_fa.write('>{}\n{}\n'.format(s, seqs[s]))
          else:
              drop.append(s)
  info = info[~info['seqname'].isin(set(drop))]
  info.to_csv(args.out_info, index=False)
  \<close>
  The loop returns the records written and the list \<^verbatim>\<open>drop\<close> (here
  \<open>dropped\<close>), both in frame order. In the dictionary the last record of a name wins.
  A null name is no key of \<^verbatim>\<open>seqs\<close>; \<^verbatim>\<open>isin\<close> matches null with
  null. The metadata is written without the index labels.
\<close>

fun write_fa :: "(string \<rightharpoonup> string) \<Rightarrow> string option list
    \<Rightarrow> (string \<times> string) list \<times> string option list" where
  "write_fa seqs [] = ([], [])"
| "write_fa seqs (s # ss) =
     (case write_fa seqs ss of
        (written, dropped) \<Rightarrow>
          (case s of
             None \<Rightarrow> (written, s # dropped)
           | Some n \<Rightarrow>
               (case seqs n of
                  None \<Rightarrow> (written, s # dropped)
                | Some q \<Rightarrow> ((n, q) # written, dropped))))"

record outputs =
  out_fa :: "(string \<times> string) list"
  out_info :: "nrow list"

definition write_outputs :: "(string \<times> string) list \<Rightarrow> ntable \<Rightarrow> outputs" where
  "write_outputs fasta info =
     (let seqs = map_of (rev fasta)
      in case write_fa seqs (map (\<lambda>(i, r). n_seqname r) info) of
           (written, dropped) \<Rightarrow>
             \<lparr>out_fa = written,
              out_info = map snd (filter (\<lambda>(i, r). \<not> n_seqname r \<in> set dropped) info)\<rparr>)"

section \<open>\<^verbatim>\<open>main\<close>\<close>

text \<open>
  The filters between the OR rows and the do-not-trust list (lines 97 to 114), and the
  whole AND group (lines 97 to 123) with the do-not-trust list already read.
\<close>

definition and_flags :: "lib \<Rightarrow> args \<Rightarrow> table \<Rightarrow> table" where
  "and_flags l a info =
     (let info = min_length_filter (min_length a) info;
          info = prop_ambig_filter l (prop_ambig_cutoff a) info;
          info = is_type_filter (is_type_arg a) info;
          info = is_species_filter (is_species_arg a) info
      in inliers_filter (inliers a) info)"

definition and_require :: "lib \<Rightarrow> args \<Rightarrow> string list option \<Rightarrow> table \<Rightarrow> table" where
  "and_require l a dnt info = do_not_trust_filter dnt (and_flags l a info)"

text \<open>
  The frame before the sequences are looked up (lines 73 to 136): the three identifier
  lists are read where the script opens them, so the first file that cannot be opened
  is the error of the run.
\<close>

definition pipeline :: "lib \<Rightarrow> files \<Rightarrow> args \<Rightarrow> row list \<Rightarrow> error + ntable" where
  "pipeline l fs a feather =
     (let info = read_feather feather
      in case read_arg_ids fs (trusted a) of
           Inl e \<Rightarrow> Inl e
         | Inr recs \<Rightarrow>
             (let trusted_rows = map_option (\<lambda>recs. select_trusted recs info) recs
              in case read_arg_ids fs (trusted_taxids a) of
                   Inl e \<Rightarrow> Inl e
                 | Inr ids \<Rightarrow>
                     (let info = or_admit (is_valid_arg a) ids info;
                          info = and_flags l a info
                      in case read_arg_ids fs (do_not_trust a) of
                           Inl e \<Rightarrow> Inl e
                         | Inr dnt \<Rightarrow>
                             (let info = do_not_trust_filter dnt info;
                                  info = drop_duplicates_stage (drop_duplicate_sequences a) info;
                                  info = append_trusted trusted_rows info
                              in Inr (species_cap_filter l (species_cap a) info)))))"

definition main :: "lib \<Rightarrow> files \<Rightarrow> args \<Rightarrow> row list \<Rightarrow> (string \<times> string) list
    \<Rightarrow> error + outputs" where
  "main l fs a feather fasta =
     (case pipeline l fs a feather of
        Inl e \<Rightarrow> Inl e
      | Inr info \<Rightarrow> Inr (write_outputs fasta info))"

section \<open>Predicates for the statements\<close>


text \<open>\<^verbatim>\<open>s in seqs\<close> for a name that may be null.\<close>

definition in_seqs :: "(string \<rightharpoonup> string) \<Rightarrow> string option \<Rightarrow> bool" where
  "in_seqs seqs s = (case s of None \<Rightarrow> False | Some n \<Rightarrow> seqs n \<noteq> None)"

text \<open>The rows of one species group; \<open>None\<close> is the group of the rows with no species.\<close>

definition in_species :: "string option \<Rightarrow> nat \<times> nrow \<Rightarrow> bool" where
  "in_species k e = (n_species (snd e) = k)"



section \<open>Example data\<close>

text \<open>A record with the given name, species, length and count of ambiguous positions.\<close>

definition example_row :: "string \<Rightarrow> string option \<Rightarrow> int \<Rightarrow> int \<Rightarrow> row" where
  "example_row name sp len amb =
     \<lparr>seqname = name, accession = name, version = name @ ''.1'', is_valid = True,
      tax_id = ''562'', species = sp, is_type = False, is_out = False, length_col = len,
      ambig_count = amb, seqhash = name\<rparr>"

text \<open>The command line with no option given.\<close>

definition no_args :: args where
  "no_args = \<lparr>drop_duplicate_sequences = False, is_valid_arg = False, trusted_taxids = None,
     do_not_trust = None, inliers = False, is_species_arg = False, is_type_arg = False,
     min_length = None, prop_ambig_cutoff = None, species_cap = None, trusted = None\<rparr>"

definition example_lib :: lib where
  "example_lib = \<lparr>na_keys_dropped = True, round_double = (\<lambda>q. q)\<rparr>"

text \<open>A file system with one identifier list, which names the record \<open>B\<close>.\<close>

definition example_files :: files where
  "example_files p = (if p = ''trusted.txt'' then Some [''# trusted'', ''B\<newline>''] else None)"

section \<open>The stages as filters\<close>

lemma or_admit_filter:
  "or_admit valid ids info =
     filter (\<lambda>(i, r). (case ids of None \<Rightarrow> False | Some ids \<Rightarrow> tax_id r \<in> set ids)
                      \<or> \<not> (valid \<and> \<not> is_valid r)) info"
  by (induction info) (auto simp: or_admit_def Let_def split: option.splits if_splits)

lemma prop_ambig_filter_Some:
  "prop_ambig_filter l (Some c) info =
     (if truthy_float c
      then filter (\<lambda>(i, r). float_le (truediv l (ambig_count r) (length_col r)) c) info
      else info)"
  by (induction info) (auto simp: prop_ambig_filter_def Let_def)

lemma subseq_set: "subseq xs ys \<Longrightarrow> set xs \<subseteq> set ys"
  by (auto elim: list_emb_set)



lemma drop_duplicates_from_idem:
  "drop_duplicates_from seen (drop_duplicates_from seen info) = drop_duplicates_from seen info"
  by (induction info arbitrary: seen) (auto simp: Let_def)



lemma subseq_prop_ambig_filter: "subseq (prop_ambig_filter l c info) info"
  by (cases c) (auto simp: prop_ambig_filter_Some, simp add: prop_ambig_filter_def)

lemma subseq_and_flags_of:
  "subseq (and_flags l a info) (min_length_filter (min_length a) info)"
  unfolding and_flags_def Let_def is_type_filter_def is_species_filter_def inliers_filter_def
  by (auto intro: subseq_order.trans[OF _ subseq_prop_ambig_filter]
      subseq_order.trans[OF subseq_filter_left])


lemma subseq_do_not_trust_filter: "subseq (do_not_trust_filter dnt info) info"
  unfolding do_not_trust_filter_def Let_def
  by (auto split: option.splits intro: subseq_order.trans[OF subseq_filter_left])


section \<open>The OR rows and the AND filters\<close>

text \<open>
  C1. A record that is not valid but whose \<^verbatim>\<open>tax_id\<close> is in the trusted tax ids
  survives the OR rows, whether \<^verbatim>\<open>--is_valid\<close> is given or not: neither the
  \<^verbatim>\<open>is_valid\<close> step nor the drop of the rows with \<^verbatim>\<open>keep\<close> false removes
  it. A valid record whose length is below the \<^verbatim>\<open>--min-length\<close> given is in no
  table that the AND filters return. Lengths are not negative (the data model of the
  table).
\<close>

theorem or_and_composition:
  "((i, r) \<in> set info \<and> \<not> is_valid r \<and> tax_id r \<in> set ids
      \<longrightarrow> (i, r) \<in> set (or_admit valid (Some ids) info))
   \<and> (is_valid r \<and> min_length a = Some m \<and> 0 \<le> length_col r \<and> length_col r < m
      \<longrightarrow> (i, r) \<notin> set (and_require l a dnt info'))"
proof (intro conjI impI)
  assume "(i, r) \<in> set info \<and> \<not> is_valid r \<and> tax_id r \<in> set ids"
  then show "(i, r) \<in> set (or_admit valid (Some ids) info)"
    by (simp add: or_admit_filter)
next
  assume h: "is_valid r \<and> min_length a = Some m \<and> 0 \<le> length_col r \<and> length_col r < m"
  then have "(i, r) \<notin> set (min_length_filter (min_length a) info')"
    by (auto simp: min_length_filter_def)
  moreover have "set (and_require l a dnt info') \<subseteq> set (min_length_filter (min_length a) info')"
    unfolding and_require_def
    using subseq_set[OF subseq_do_not_trust_filter] subseq_set[OF subseq_and_flags_of] by blast
  ultimately show "(i, r) \<notin> set (and_require l a dnt info')" by blast
qed

theorem or_and_composition_witness:
  "(1, (example_row ''B'' None 900 0)\<lparr>is_valid := False\<rparr>)
      \<in> set (or_admit True (Some [''562''])
          [(0, example_row ''A'' None 1500 0), (1, (example_row ''B'' None 900 0)\<lparr>is_valid := False\<rparr>)])
   \<and> (0, example_row ''A'' None 1500 0)
      \<notin> set (and_require example_lib (no_args\<lparr>min_length := Some 1600\<rparr>) None
          [(0, example_row ''A'' None 1500 0), (1, (example_row ''B'' None 900 0)\<lparr>is_valid := False\<rparr>)])"
  using or_and_composition [where i = 1 and r = "(example_row ''B'' None 900 0)\<lparr>is_valid := False\<rparr>"
      and info = "[(0, example_row ''A'' None 1500 0), (1, (example_row ''B'' None 900 0)\<lparr>is_valid := False\<rparr>)]"
      and ids = "[''562'']" and valid = True]
    or_and_composition [where i = 0 and r = "example_row ''A'' None 1500 0"
      and a = "no_args\<lparr>min_length := Some 1600\<rparr>" and m = 1600 and l = example_lib
      and dnt = None
      and info' = "[(0, example_row ''A'' None 1500 0), (1, (example_row ''B'' None 900 0)\<lparr>is_valid := False\<rparr>)]"]
  by (simp add: example_row_def no_args_def)

text \<open>
  C10. \<^verbatim>\<open>--min-length 0\<close> is the same run as no \<^verbatim>\<open>--min-length\<close>: the
  outputs are equal for every table, and the length filter with the value 0 returns its
  table as it is, a record of length 0 included.
\<close>

theorem min_length_zero_disabled:
  "main l fs (a\<lparr>min_length := Some 0\<rparr>) feather fasta
     = main l fs (a\<lparr>min_length := None\<rparr>) feather fasta
   \<and> min_length_filter (Some 0) info = info"
  by (simp add: main_def pipeline_def and_flags_def min_length_filter_def Let_def
      cong: sum.case_cong)

theorem min_length_zero_disabled_witness:
  "main example_lib example_files (no_args\<lparr>min_length := Some 0\<rparr>)
       [example_row ''A'' None 0 0] [(''A'', ''ACGT'')]
     = main example_lib example_files (no_args\<lparr>min_length := None\<rparr>)
         [example_row ''A'' None 0 0] [(''A'', ''ACGT'')]
   \<and> min_length_filter (Some 0) [(0, example_row ''A'' None 0 0)]
     = [(0, example_row ''A'' None 0 0)]"
  by (rule min_length_zero_disabled)

section \<open>Duplicate sequences\<close>

text \<open>
  C8. Dropping the duplicates (the rows whose accession and seqhash an earlier row has)
  of a table that is already the result of dropping the duplicates returns it unchanged,
  for every table; the same holds for the stage with its flag.
\<close>

theorem drop_duplicates_idempotent:
  "drop_duplicates (drop_duplicates info) = drop_duplicates info
   \<and> drop_duplicates_stage flag (drop_duplicates_stage flag info)
       = drop_duplicates_stage flag info"
  by (simp add: drop_duplicates_def drop_duplicates_stage_def drop_duplicates_from_idem)

theorem drop_duplicates_idempotent_witness:
  "drop_duplicates (drop_duplicates
       [(0, example_row ''A'' None 10 0), (1, example_row ''A'' None 10 0),
        (2, example_row ''B'' None 10 0)])
     = drop_duplicates
       [(0, example_row ''A'' None 10 0), (1, example_row ''A'' None 10 0),
        (2, example_row ''B'' None 10 0)]
   \<and> drop_duplicates_stage True (drop_duplicates_stage True
       [(0, example_row ''A'' None 10 0), (1, example_row ''A'' None 10 0),
        (2, example_row ''B'' None 10 0)])
     = drop_duplicates_stage True
       [(0, example_row ''A'' None 10 0), (1, example_row ''A'' None 10 0),
        (2, example_row ''B'' None 10 0)]"
  by (rule drop_duplicates_idempotent)

section \<open>The run and its outputs\<close>

lemma in_seqs_simps:
  "in_seqs seqs None = False" "in_seqs seqs (Some n) = (seqs n \<noteq> None)"
  by (simp_all add: in_seqs_def)

lemma write_fa_Cons:
  "write_fa seqs (s # ss) =
     (if in_seqs seqs s
      then ((the s, the (seqs (the s))) # fst (write_fa seqs ss), snd (write_fa seqs ss))
      else (fst (write_fa seqs ss), s # snd (write_fa seqs ss)))"
proof (cases "write_fa seqs ss")
  case (Pair w d)
  then show ?thesis
    by (cases s; cases "seqs (the s)") (simp_all add: in_seqs_simps)
qed

lemma write_fa_dropped: "set (snd (write_fa seqs ss)) = {s \<in> set ss. \<not> in_seqs seqs s}"
proof (induction ss)
  case Nil
  show ?case by simp
next
  case (Cons s ss)
  show ?case unfolding write_fa_Cons using Cons by (cases "in_seqs seqs s") auto
qed

lemma write_fa_written:
  "map (\<lambda>(n, q). Some n) (fst (write_fa seqs ss)) = filter (in_seqs seqs) ss"
proof (induction ss)
  case Nil
  show ?case by simp
next
  case (Cons s ss)
  have "in_seqs seqs s \<Longrightarrow> Some (the s) = s" by (cases s) (simp_all add: in_seqs_simps)
  then show ?case unfolding write_fa_Cons using Cons by (cases "in_seqs seqs s") simp_all
qed

lemma write_fa_written_seqs: "(n, q) \<in> set (fst (write_fa seqs ss)) \<Longrightarrow> seqs n = Some q"
proof (induction ss)
  case Nil
  then show ?case by simp
next
  case (Cons s ss)
  have "in_seqs seqs s \<Longrightarrow> seqs (the s) = Some (the (seqs (the s)))"
    by (cases s) (auto simp: in_seqs_simps)
  with Cons show ?case unfolding write_fa_Cons by (cases "in_seqs seqs s") auto
qed

lemma out_fa_write_outputs:
  "out_fa (write_outputs fasta info)
     = fst (write_fa (map_of (rev fasta)) (map (\<lambda>(i, r). n_seqname r) info))"
  by (simp add: write_outputs_def split: prod.splits)

lemma out_info_write_outputs:
  "out_info (write_outputs fasta info)
     = map snd (filter (\<lambda>(i, r). n_seqname r
          \<notin> set (snd (write_fa (map_of (rev fasta)) (map (\<lambda>(i, r). n_seqname r) info)))) info)"
  by (simp add: write_outputs_def split: prod.splits)

lemma names_filter:
  "map n_seqname (map snd (filter (\<lambda>(i, r). P (n_seqname r)) info))
     = filter P (map (\<lambda>(i, r). n_seqname r) info)"
  by (induction info) auto

lemma write_outputs_names:
  "map n_seqname (out_info (write_outputs fasta info))
     = map (\<lambda>(n, q). Some n) (out_fa (write_outputs fasta info))"
proof -
  let ?seqs = "map_of (rev fasta)"
  let ?names = "map (\<lambda>(i, r). n_seqname r) info"
  have "map n_seqname (out_info (write_outputs fasta info))
      = filter (\<lambda>s. s \<notin> set (snd (write_fa ?seqs ?names))) ?names"
    unfolding out_info_write_outputs by (rule names_filter)
  also have "\<dots> = filter (in_seqs ?seqs) ?names"
    by (rule filter_cong) (simp_all add: write_fa_dropped)
  also have "\<dots> = map (\<lambda>(n, q). Some n) (fst (write_fa ?seqs ?names))"
    by (rule write_fa_written[symmetric])
  finally show ?thesis unfolding out_fa_write_outputs .
qed

lemma write_outputs_out_fa:
  "(n, q) \<in> set (out_fa (write_outputs fasta info)) \<Longrightarrow> map_of (rev fasta) n = Some q"
  unfolding out_fa_write_outputs by (rule write_fa_written_seqs)

text \<open>
  C6. For every run that completes, the names in the metadata written are, in order, the
  names of the sequence records written; so the two sets of names are equal, and a name
  that the mapping from names to sequences lacks is in neither output.
\<close>

theorem outputs_consistent:
  assumes "main l fs a feather fasta = Inr out"
  shows "map n_seqname (out_info out) = map (\<lambda>(n, q). Some n) (out_fa out)
    \<and> set (map n_seqname (out_info out)) = Some ` set (map fst (out_fa out))
    \<and> (\<forall>s. map_of (rev fasta) s = None
          \<longrightarrow> Some s \<notin> set (map n_seqname (out_info out)) \<and> s \<notin> set (map fst (out_fa out)))"
proof -
  from assms have "\<exists>info. out = write_outputs fasta info"
    by (cases "pipeline l fs a feather") (auto simp: main_def)
  then obtain info where out: "out = write_outputs fasta info" ..
  have eq: "map n_seqname (out_info out) = map (\<lambda>(n, q). Some n) (out_fa out)"
    unfolding out by (rule write_outputs_names)
  have m: "map (\<lambda>(n, q). Some n) (out_fa out) = map Some (map fst (out_fa out))"
    by (induction "out_fa out") auto
  have s: "set (map n_seqname (out_info out)) = Some ` set (map fst (out_fa out))"
    unfolding eq m by (simp add: image_image)
  have fa: "s \<notin> set (map fst (out_fa out))" if "map_of (rev fasta) s = None" for s
  proof
    assume "s \<in> set (map fst (out_fa out))"
    then obtain q where "(s, q) \<in> set (out_fa out)" by auto
    then have "map_of (rev fasta) s = Some q"
      unfolding out by (rule write_outputs_out_fa)
    with that show False by simp
  qed
  have info: "Some s \<notin> set (map n_seqname (out_info out))" if "map_of (rev fasta) s = None" for s
  proof
    assume "Some s \<in> set (map n_seqname (out_info out))"
    then have "Some s \<in> Some ` set (map fst (out_fa out))" by (simp only: s)
    then have "s \<in> set (map fst (out_fa out))" by (simp add: image_iff)
    with fa[OF that] show False by simp
  qed
  show ?thesis
  proof (intro conjI allI impI)
    show "map n_seqname (out_info out) = map (\<lambda>(n, q). Some n) (out_fa out)" by (rule eq)
    show "set (map n_seqname (out_info out)) = Some ` set (map fst (out_fa out))" by (rule s)
  next
    fix s assume n: "map_of (rev fasta) s = None"
    show "Some s \<notin> set (map n_seqname (out_info out))" by (rule info[OF n])
    show "s \<notin> set (map fst (out_fa out))" by (rule fa[OF n])
  qed
qed

theorem outputs_consistent_witness:
  "main example_lib example_files no_args
       [example_row ''A'' None 10 0, example_row ''B'' None 10 1] [(''A'', ''ACGT'')]
     = Inr \<lparr>out_fa = [(''A'', ''ACGT'')], out_info = [lift_row (example_row ''A'' None 10 0)]\<rparr>
   \<and> set (map n_seqname [lift_row (example_row ''A'' None 10 0)])
       = Some ` set (map fst [(''A'', ''ACGT'')])
   \<and> Some ''B'' \<notin> set (map n_seqname [lift_row (example_row ''A'' None 10 0)])
   \<and> ''B'' \<notin> set (map fst [(''A'', ''ACGT'')])"
proof -
  have run: "main example_lib example_files no_args
       [example_row ''A'' None 10 0, example_row ''B'' None 10 1] [(''A'', ''ACGT'')]
     = Inr \<lparr>out_fa = [(''A'', ''ACGT'')], out_info = [lift_row (example_row ''A'' None 10 0)]\<rparr>"
    by (simp add: main_def pipeline_def Let_def read_feather_def no_args_def read_arg_ids_def
      or_admit_def and_flags_def min_length_filter_def prop_ambig_filter_def
      example_row_def is_type_filter_def is_species_filter_def
      inliers_filter_def do_not_trust_filter_def drop_duplicates_stage_def append_trusted_def
      species_cap_filter_def write_outputs_def lift_entry_def lift_row_def)
  have absent: "map_of (rev [(''A'', ''ACGT'')]) ''B'' = None" by simp
  from outputs_consistent[OF run] absent run show ?thesis
    unfolding outputs.simps by blast
qed


subsection \<open>Errors of a run\<close>










section \<open>The ambiguity cutoff\<close>

text \<open>
  C4. With \<^verbatim>\<open>--prop-ambig-cutoff 0.0\<close> the ambiguity filter returns both the
  record with no ambiguous position in 10 and the record with one ambiguous position in
  10: the value 0.0 is falsy, so \<^verbatim>\<open>if args.prop_ambig_cutoff:\<close> skips the filter
  and the second record is not removed.
\<close>

theorem prop_ambig_cutoff_zero_keeps_ambiguous:
  "prop_ambig_filter l (Some (Fin 0))
     [(0, example_row ''A'' None 10 0), (1, example_row ''B'' None 10 1)]
   = [(0, example_row ''A'' None 10 0), (1, example_row ''B'' None 10 1)]"
  by (simp add: prop_ambig_filter_def truthy_float_def)



section \<open>The species cap\<close>

lemma groupby_nth_from_subseq: "subseq (groupby_nth_from dropna n seen info) info"
  by (induction info arbitrary: seen) (auto simp: Let_def)

lemma groupby_nth_from_group:
  "filter (in_species k) (groupby_nth_from dropna n seen info) =
     (if dropna \<and> k = None then []
      else take (nat n - count_list seen k) (filter (in_species k) info))"
proof (induction info arbitrary: seen)
  case Nil
  show ?case by simp
next
  case (Cons e es)
  show ?case
  proof (cases "n_species (snd e) = k")
    case True
    then show ?thesis
      using Cons[of "k # seen"]
      by (auto simp: Let_def in_species_def[abs_def] take_Cons' nat_diff_distrib)
  next
    case False
    then show ?thesis
      using Cons[of "n_species (snd e) # seen"]
      by (auto simp: Let_def in_species_def[abs_def])
  qed
qed

text \<open>
  C3. With \<^verbatim>\<open>--species-cap n\<close> for a value \<open>n\<close> that is not zero, the rows
  that have a species are grouped by it, and of each group exactly the first \<open>n\<close> rows
  in table order stay (a group with fewer rows stays whole); the rows that stay keep
  their order. The group of the rows with no species is capped like the others when the
  library counts null keys as a group, and is dropped whole when the library drops null
  keys. Four records \<open>A\<close>, \<open>B\<close>, \<open>C\<close> of one species and \<open>D\<close> of another, in
  that order, give \<open>A\<close>, \<open>B\<close>, \<open>D\<close> under the cap 2.
\<close>

theorem species_cap_groups:
  assumes "n \<noteq> 0"
  shows "(\<forall>k. k \<noteq> None \<or> \<not> na_keys_dropped l
            \<longrightarrow> filter (in_species k) (species_cap_filter l (Some n) info)
                = take (nat n) (filter (in_species k) info))
    \<and> (na_keys_dropped l
          \<longrightarrow> filter (in_species None) (species_cap_filter l (Some n) info) = [])
    \<and> subseq (species_cap_filter l (Some n) info) info
    \<and> (in_species (Some s1) ea \<and> in_species (Some s1) eb \<and> in_species (Some s1) ec
          \<and> in_species (Some s2) ed \<and> s1 \<noteq> s2
          \<longrightarrow> species_cap_filter l (Some 2) [ea, eb, ec, ed] = [ea, eb, ed])"
proof (intro conjI allI impI)
  fix k :: "string option" assume "k \<noteq> None \<or> \<not> na_keys_dropped l"
  with assms show "filter (in_species k) (species_cap_filter l (Some n) info)
      = take (nat n) (filter (in_species k) info)"
    by (auto simp: species_cap_filter_def groupby_nth_from_group)
next
  assume "na_keys_dropped l"
  with assms show "filter (in_species None) (species_cap_filter l (Some n) info) = []"
    by (simp add: species_cap_filter_def groupby_nth_from_group)
next
  from assms show "subseq (species_cap_filter l (Some n) info) info"
    by (simp add: species_cap_filter_def groupby_nth_from_subseq)
next
  assume "in_species (Some s1) ea \<and> in_species (Some s1) eb \<and> in_species (Some s1) ec
      \<and> in_species (Some s2) ed \<and> s1 \<noteq> s2"
  then show "species_cap_filter l (Some 2) [ea, eb, ec, ed] = [ea, eb, ed]"
    by (simp add: species_cap_filter_def in_species_def Let_def)
qed

theorem species_cap_groups_witness:
  "(2::int) \<noteq> 0
   \<and> filter (in_species (Some ''1''))
        (species_cap_filter example_lib (Some 2)
          (map lift_entry
            [(0, example_row ''A'' (Some ''1'') 10 0), (1, example_row ''B'' (Some ''1'') 10 0),
             (2, example_row ''C'' (Some ''1'') 10 0), (3, example_row ''D'' (Some ''2'') 10 0)]))
      = take (nat 2) (filter (in_species (Some ''1''))
          (map lift_entry
            [(0, example_row ''A'' (Some ''1'') 10 0), (1, example_row ''B'' (Some ''1'') 10 0),
             (2, example_row ''C'' (Some ''1'') 10 0), (3, example_row ''D'' (Some ''2'') 10 0)]))
   \<and> species_cap_filter example_lib (Some 2)
        [lift_entry (0, example_row ''A'' (Some ''1'') 10 0),
         lift_entry (1, example_row ''B'' (Some ''1'') 10 0),
         lift_entry (2, example_row ''C'' (Some ''1'') 10 0),
         lift_entry (3, example_row ''D'' (Some ''2'') 10 0)]
      = [lift_entry (0, example_row ''A'' (Some ''1'') 10 0),
         lift_entry (1, example_row ''B'' (Some ''1'') 10 0),
         lift_entry (3, example_row ''D'' (Some ''2'') 10 0)]"
proof -
  have n: "(2::int) \<noteq> 0" by simp
  have sp: "in_species (Some ''1'') (lift_entry (0, example_row ''A'' (Some ''1'') 10 0))
      \<and> in_species (Some ''1'') (lift_entry (1, example_row ''B'' (Some ''1'') 10 0))
      \<and> in_species (Some ''1'') (lift_entry (2, example_row ''C'' (Some ''1'') 10 0))
      \<and> in_species (Some ''2'') (lift_entry (3, example_row ''D'' (Some ''2'') 10 0))
      \<and> ''1'' \<noteq> ''2''"
    by (simp add: in_species_def lift_entry_def lift_row_def example_row_def)
  have k: "Some ''1'' \<noteq> None \<or> \<not> na_keys_dropped example_lib" by simp
  note c = species_cap_groups[OF n, where l = example_lib]
  from c k have "filter (in_species (Some ''1''))
        (species_cap_filter example_lib (Some 2)
          (map lift_entry
            [(0, example_row ''A'' (Some ''1'') 10 0), (1, example_row ''B'' (Some ''1'') 10 0),
             (2, example_row ''C'' (Some ''1'') 10 0), (3, example_row ''D'' (Some ''2'') 10 0)]))
      = take (nat 2) (filter (in_species (Some ''1''))
          (map lift_entry
            [(0, example_row ''A'' (Some ''1'') 10 0), (1, example_row ''B'' (Some ''1'') 10 0),
             (2, example_row ''C'' (Some ''1'') 10 0), (3, example_row ''D'' (Some ''2'') 10 0)]))"
    by blast
  moreover from c sp have "species_cap_filter example_lib (Some 2)
        [lift_entry (0, example_row ''A'' (Some ''1'') 10 0),
         lift_entry (1, example_row ''B'' (Some ''1'') 10 0),
         lift_entry (2, example_row ''C'' (Some ''1'') 10 0),
         lift_entry (3, example_row ''D'' (Some ''2'') 10 0)]
      = [lift_entry (0, example_row ''A'' (Some ''1'') 10 0),
         lift_entry (1, example_row ''B'' (Some ''1'') 10 0),
         lift_entry (3, example_row ''D'' (Some ''2'') 10 0)]"
    by blast
  ultimately show ?thesis using n by blast
qed


text \<open>
  With \<^verbatim>\<open>--species-cap 0\<close> the cap is skipped and the record stays, where the
  first 0 rows of its group are none; with the cap 1 a record with no species is dropped
  by a library that drops null keys, where the first row of its group is the record.
\<close>

theorem species_cap_groups_counterexample:
  "filter (in_species (Some ''1''))
      (species_cap_filter example_lib (Some 0) [lift_entry (0, example_row ''A'' (Some ''1'') 10 0)])
     \<noteq> take (nat 0) (filter (in_species (Some ''1''))
          [lift_entry (0, example_row ''A'' (Some ''1'') 10 0)])
   \<and> filter (in_species None)
      (species_cap_filter example_lib (Some 1) [lift_entry (0, example_row ''X'' None 10 0)])
     \<noteq> take (nat 1) (filter (in_species None)
          [lift_entry (0, example_row ''X'' None 10 0)])"
  by (simp add: species_cap_filter_def in_species_def lift_entry_def lift_row_def
      example_row_def example_lib_def)

section \<open>The trusted records\<close>






























text \<open>
  C7. A run with a \<^verbatim>\<open>--trusted\<close> list that names the one record of the table,
  and no filter: the table after the pipeline holds the record and, after it, a row with
  null in every cell (under the label of the record), which is no row of the loaded
  table.
\<close>

theorem trusted_append_null_row:
  "pipeline example_lib example_files (no_args\<lparr>trusted := Some ''trusted.txt''\<rparr>)
     [example_row ''B'' (Some ''1'') 900 0]
   = Inr [(0, lift_row (example_row ''B'' (Some ''1'') 900 0)), (0, null_row)]"
  by (simp add: pipeline_def Let_def read_feather_def no_args_def read_arg_ids_def
      example_files_def read_ids_def is_comment_def strip_def isspace_def select_trusted_def
      or_admit_def and_flags_def min_length_filter_def prop_ambig_filter_def
      example_row_def is_type_filter_def is_species_filter_def
      inliers_filter_def do_not_trust_filter_def drop_duplicates_stage_def append_trusted_def
      where_not_isin_def mask_row_def mask_cell_def null_row_def
      species_cap_filter_def lift_entry_def lift_row_def)


end
